theory Spec2Isabelle
  imports Complex_Main
begin

section \<open>Grouped-frequency statistics: the data model\<close>

text \<open>
  The embedding follows \<^verbatim>\<open>src/Untitled-1.py\<close> (the engine behind the Tkinter
  front end) and \<^verbatim>\<open>src/ejerci.py\<close> (the console table builder).

  Numbers: Python's \<^verbatim>\<open>int\<close> is \<^typ>\<open>int\<close>. Python's \<^verbatim>\<open>float\<close> is
  modelled by \<^typ>\<open>real\<close>, so every arithmetic step is exact; rounding, overflow
  of the binary format and the conversion error of a very large integer are not part
  of the model. The two non-numeric floats the source writes down as literals,
  \<^verbatim>\<open>float("nan")\<close> and \<^verbatim>\<open>float("inf")\<close>, are constructors of their own.

  Exceptions are values: a function that can raise returns \<open>py_error + 'a\<close>.
\<close>

datatype py_error = IndexError | ZeroDivisionError | ValueError

datatype pyfloat = Num real | NaN | PosInf | NegInf

record Clase =
  minimo :: real
  maximo :: real
  fi :: int

definition amplitud :: "Clase \<Rightarrow> real" where
  "amplitud c = maximo c - minimo c"

definition marca :: "Clase \<Rightarrow> real" where
  "marca c = (minimo c + maximo c) / 2"

text \<open>\<^verbatim>\<open>sum(c.fi for c in clases)\<close>\<close>

definition total_n :: "Clase list \<Rightarrow> int" where
  "total_n clases = sum_list (map fi clases)"

text \<open>
  The cumulative frequency of the first \<open>i\<close> classes, that is of all classes
  strictly before index \<open>i\<close>. This is the vocabulary of the statements only: the
  source never calls it, it accumulates \<^verbatim>\<open>Fi\<close> in its loops.
\<close>

definition Fi_hasta :: "Clase list \<Rightarrow> nat \<Rightarrow> int" where
  "Fi_hasta clases i = sum_list (map fi (take i clases))"

section \<open>The position locator\<close>

text \<open>
  \<^verbatim>\<open>
  def buscar_clase_por_posicion(clases, posicion):
      Fi = 0
      for i, c in enumerate(clases):
          previo = Fi
          Fi += c.fi
          if posicion <= Fi:
              return i, previo
      return len(clases)-1, Fi - clases[-1].fi
  \<close>
  The loop state is the index \<open>i\<close> and the running \<open>Fi\<close>; the last argument is
  what is left of the sequence. After the loop \<^verbatim>\<open>clases[-1]\<close> raises on the empty
  list.
\<close>

fun buscar_desde :: "Clase list \<Rightarrow> real \<Rightarrow> nat \<Rightarrow> int \<Rightarrow> Clase list \<Rightarrow> py_error + (nat \<times> int)" where
  "buscar_desde clases posicion i Fi [] =
     (if clases = [] then Inl IndexError
      else Inr (length clases - 1, Fi - fi (last clases)))"
| "buscar_desde clases posicion i Fi (c # resto) =
     (let previo = Fi; Fi' = Fi + fi c
      in if posicion \<le> real_of_int Fi' then Inr (i, previo)
         else buscar_desde clases posicion (Suc i) Fi' resto)"

definition buscar_clase_por_posicion :: "Clase list \<Rightarrow> real \<Rightarrow> py_error + (nat \<times> int)" where
  "buscar_clase_por_posicion clases posicion = buscar_desde clases posicion 0 0 clases"

section \<open>Quantiles\<close>

text \<open>
  \<^verbatim>\<open>
  def cuantil_agrupado(clases, k, m=4):
      n = sum(c.fi for c in clases)
      if n == 0:
          return float("nan")
      pos = k * n / m
      i, Fi_1 = buscar_clase_por_posicion(clases, pos)
      c = clases[i]
      return c.minimo + ((pos - Fi_1) / c.fi) * c.amplitud
  \<close>
  Both divisions are Python's true division, which raises \<^verbatim>\<open>ZeroDivisionError\<close>
  on a zero divisor, integer or float.
\<close>

definition cuantil_agrupado :: "Clase list \<Rightarrow> int \<Rightarrow> int \<Rightarrow> py_error + pyfloat" where
  "cuantil_agrupado clases k m =
     (let n = total_n clases
      in if n = 0 then Inr NaN
         else if m = 0 then Inl ZeroDivisionError
         else
           let pos = real_of_int (k * n) / real_of_int m
           in case buscar_clase_por_posicion clases pos of
                Inl e \<Rightarrow> Inl e
              | Inr (i, Fi_1) \<Rightarrow>
                  if \<not> i < length clases then Inl IndexError
                  else
                    let c = clases ! i
                    in if fi c = 0 then Inl ZeroDivisionError
                       else Inr (Num (minimo c
                              + ((pos - real_of_int Fi_1) / real_of_int (fi c)) * amplitud c)))"

definition mediana_agrupada :: "Clase list \<Rightarrow> py_error + pyfloat" where
  "mediana_agrupada clases = cuantil_agrupado clases 2 4"

section \<open>The table builder of the engine\<close>

text \<open>
  \<^verbatim>\<open>
  def construir_tabla(clases):
      filas = []
      n = sum(c.fi for c in clases)
      Fi = 0
      for i, c in enumerate(clases):
          Fi += c.fi
          etiqueta = f"[ {c.minimo:g} , {c.maximo:g} " + ("]" if i == len(clases)-1 else "[")
          filas.append({"intervalo": etiqueta, "min": c.minimo, "max": c.maximo,
                        "A": c.amplitud, "fi": c.fi, "Fi": Fi})
      return filas, n
  \<close>
  A row is the dictionary the loop appends. The format specification \<^verbatim>\<open>:g\<close> is
  Python's own rendering of a float; it is the parameter \<open>g\<close> of the model, so
  that the labels are determined up to that rendering.
\<close>

record fila =
  intervalo :: string
  fila_min :: real
  fila_max :: real
  fila_A :: real
  fila_fi :: int
  fila_Fi :: int

definition etiqueta :: "(real \<Rightarrow> string) \<Rightarrow> Clase \<Rightarrow> bool \<Rightarrow> string" where
  "etiqueta g c es_ultima =
     (''[ '' @ g (minimo c) @ '' , '' @ g (maximo c) @ '' '') @ (if es_ultima then '']'' else ''['')"

fun tabla_desde :: "(real \<Rightarrow> string) \<Rightarrow> nat \<Rightarrow> nat \<Rightarrow> int \<Rightarrow> fila list \<Rightarrow> Clase list \<Rightarrow> fila list" where
  "tabla_desde g len i Fi filas [] = filas"
| "tabla_desde g len i Fi filas (c # resto) =
     (let Fi' = Fi + fi c
      in tabla_desde g len (Suc i) Fi'
           (filas @ [\<lparr>intervalo = etiqueta g c (int i = int len - 1),
                      fila_min = minimo c, fila_max = maximo c, fila_A = amplitud c,
                      fila_fi = fi c, fila_Fi = Fi'\<rparr>])
           resto)"

definition construir_tabla :: "(real \<Rightarrow> string) \<Rightarrow> Clase list \<Rightarrow> fila list \<times> int" where
  "construir_tabla g clases =
     (let n = total_n clases
      in (tabla_desde g (length clases) 0 0 [] clases, n))"

section \<open>The mode\<close>

text \<open>
  Python's \<^verbatim>\<open>max(iterable, key=...)\<close> keeps the first item it has seen and replaces
  it only by an item whose key is strictly greater, so the first of several maximal
  items wins. \<open>max_key\<close> is that loop, started on the first item.
\<close>

fun max_key :: "('a \<Rightarrow> int) \<Rightarrow> 'a \<Rightarrow> 'a list \<Rightarrow> 'a" where
  "max_key key mejor [] = mejor"
| "max_key key mejor (x # xs) = (if key x > key mejor then max_key key x xs else max_key key mejor xs)"

text \<open>
  \<^verbatim>\<open>
  def moda_agrupada(clases):
      if not clases:
          return None
      idx = max(range(len(clases)), key=lambda i: clases[i].fi)
      c = clases[idx]
      f0 = clases[idx-1].fi if idx-1 >= 0 else 0
      f1 = c.fi
      f2 = clases[idx+1].fi if idx+1 < len(clases) else 0
      d1 = f1 - f0
      d2 = f1 - f2
      if d1 + d2 == 0:
          return (c.minimo + c.maximo) / 2.0
      return c.minimo + (d1 / (d1 + d2)) * c.amplitud
  \<close>
  The range is not empty after the first test, so \<^verbatim>\<open>max\<close> starts on index 0.
\<close>

definition idx_modal :: "Clase list \<Rightarrow> nat" where
  "idx_modal clases = max_key (\<lambda>i. fi (clases ! i)) 0 [1..<length clases]"

definition moda_agrupada :: "Clase list \<Rightarrow> real option" where
  "moda_agrupada clases =
     (if clases = [] then None
      else
        let idx = idx_modal clases;
            c = clases ! idx;
            f0 = (if int idx - 1 \<ge> 0 then fi (clases ! (idx - 1)) else 0);
            f1 = fi c;
            f2 = (if idx + 1 < length clases then fi (clases ! (idx + 1)) else 0);
            d1 = f1 - f0;
            d2 = f1 - f2
        in if d1 + d2 = 0 then Some ((minimo c + maximo c) / 2)
           else Some (minimo c + (real_of_int d1 / real_of_int (d1 + d2)) * amplitud c))"

section \<open>The table builder of the console program\<close>

text \<open>
  \<^verbatim>\<open>
  def construir_tabla(clases):          # ejerci.py
      etiquetas = []
      for i, c in enumerate(clases):
          if i < len(clases) - 1:
              etiquetas.append(f"[ {c.minimo:g} , {c.maximo:g} [")
          else:
              etiquetas.append(f"[ {c.minimo:g} , {c.maximo:g} ]")
      amplitud = [c.maximo - c.minimo for c in clases]
      fi = [c.fi for c in clases]
      Fi = pd.Series(fi).cumsum().tolist()
      df = pd.DataFrame({... the six columns ...})
      total = pd.DataFrame({"Valores (Intervalo)": ["TOTAL"], "Valor minimo": [""],
                            "Valor maximo": [""], "Amplitud (A)": [""],
                            "Frecuencia absoluta (fi)": [sum(fi)],
                            "Frecuencia acumulada (Fi)": [Fi[-1] if Fi else 0]})
      df = pd.concat([df, total], ignore_index=True)
      return df
  \<close>
  The data frame is its six columns; a cell holds a string, a float or an integer.

  \<^verbatim>\<open>pd.Series(fi)\<close> is a column of 64-bit signed integers when every element of
  the list fits that type, and \<^verbatim>\<open>cumsum\<close> then adds in that type: each running sum
  wraps around modulo \<open>2^64\<close> into \<open>[-2^63, 2^63)\<close>. A list with an element
  outside that range gets another column type; what \<^verbatim>\<open>cumsum\<close> does there is the
  parameter \<open>otro\<close> of the model. \<^verbatim>\<open>tolist\<close> gives Python integers back, and
  \<^verbatim>\<open>sum(fi)\<close> is Python's own exact sum.
\<close>

datatype celda = Texto string | Flotante real | Entero int

record tabla_df =
  col_intervalo :: "celda list"
  col_minimo :: "celda list"
  col_maximo :: "celda list"
  col_amplitud :: "celda list"
  col_fi :: "celda list"
  col_Fi :: "celda list"

fun etiquetas_desde :: "(real \<Rightarrow> string) \<Rightarrow> nat \<Rightarrow> nat \<Rightarrow> string list \<Rightarrow> Clase list \<Rightarrow> string list" where
  "etiquetas_desde g len i etiquetas [] = etiquetas"
| "etiquetas_desde g len i etiquetas (c # resto) =
     etiquetas_desde g len (Suc i)
       (etiquetas @ [if int i < int len - 1
                     then ''[ '' @ g (minimo c) @ '' , '' @ g (maximo c) @ '' [''
                     else ''[ '' @ g (minimo c) @ '' , '' @ g (maximo c) @ '' ]''])
       resto"

definition en_int64 :: "int \<Rightarrow> bool" where
  "en_int64 x = (- (2 ^ 63) \<le> x \<and> x < 2 ^ 63)"

definition envolver64 :: "int \<Rightarrow> int" where
  "envolver64 x = (x + 2 ^ 63) mod 2 ^ 64 - 2 ^ 63"

fun cumsum_desde :: "int \<Rightarrow> int list \<Rightarrow> int list" where
  "cumsum_desde acc [] = []"
| "cumsum_desde acc (x # xs) = (let s = envolver64 (acc + x) in s # cumsum_desde s xs)"

definition cumsum :: "(int list \<Rightarrow> int list) \<Rightarrow> int list \<Rightarrow> int list" where
  "cumsum otro xs = (if list_all en_int64 xs then cumsum_desde 0 xs else otro xs)"

definition construir_tabla_ejerci ::
  "(real \<Rightarrow> string) \<Rightarrow> (int list \<Rightarrow> int list) \<Rightarrow> Clase list \<Rightarrow> tabla_df" where
  "construir_tabla_ejerci g otro clases =
     (let etiquetas = etiquetas_desde g (length clases) 0 [] clases;
          amplitudes = map (\<lambda>c. maximo c - minimo c) clases;
          fis = map fi clases;
          Fis = cumsum otro fis
      in \<lparr>col_intervalo = map Texto etiquetas @ [Texto ''TOTAL''],
          col_minimo = map (\<lambda>c. Flotante (minimo c)) clases @ [Texto []],
          col_maximo = map (\<lambda>c. Flotante (maximo c)) clases @ [Texto []],
          col_amplitud = map Flotante amplitudes @ [Texto []],
          col_fi = map Entero fis @ [Entero (sum_list fis)],
          col_Fi = map Entero Fis @ [Entero (if Fis \<noteq> [] then last Fis else 0)]\<rparr>)"

section \<open>Sample inputs\<close>

definition ejemplo :: "Clase list" where
  "ejemplo = [\<lparr>minimo = 20, maximo = 25, fi = 2\<rparr>, \<lparr>minimo = 25, maximo = 30, fi = 5\<rparr>,
     \<lparr>minimo = 30, maximo = 35, fi = 8\<rparr>, \<lparr>minimo = 35, maximo = 40, fi = 4\<rparr>,
     \<lparr>minimo = 40, maximo = 45, fi = 1\<rparr>]"

text \<open>
  A rendering of numbers that agrees with \<^verbatim>\<open>:g\<close> on the three boundaries of the
  two samples below.
\<close>

definition g_muestra :: "real \<Rightarrow> string" where
  "g_muestra x = (if x = 0 then ''0'' else if x = 10 then ''10'' else if x = 20 then ''20'' else [])"


definition cero_ultimo :: "Clase list" where
  "cero_ultimo = [\<lparr>minimo = 0, maximo = 10, fi = 5\<rparr>, \<lparr>minimo = 10, maximo = 20, fi = 0\<rparr>]"

text \<open>
  Two classes whose frequencies fit 64 bits while their sum, \<open>2^63\<close>, does not; and
  a stand-in for \<open>otro\<close>, which no sample reaches.
\<close>

definition enormes :: "Clase list" where
  "enormes = [\<lparr>minimo = 0, maximo = 10, fi = 2 ^ 62\<rparr>, \<lparr>minimo = 10, maximo = 20, fi = 2 ^ 62\<rparr>]"

definition otro_muestra :: "int list \<Rightarrow> int list" where
  "otro_muestra xs = []"


section \<open>The position locator finds the first class that reaches the position\<close>



lemma Fi_hasta_append_length: "Fi_hasta (pre @ resto) (length pre) = sum_list (map fi pre)"
  by (simp add: Fi_hasta_def)

lemma buscar_desde_spec:
  assumes "\<forall>j<length pre. real_of_int (Fi_hasta (pre @ resto) (Suc j)) < p"
    and "pre @ resto \<noteq> []"
  shows "\<exists>i prev. buscar_desde (pre @ resto) p (length pre) (sum_list (map fi pre)) resto
            = Inr (i, prev)
          \<and> i < length (pre @ resto)
          \<and> (if \<exists>j<length (pre @ resto). p \<le> real_of_int (Fi_hasta (pre @ resto) (Suc j))
             then p \<le> real_of_int (Fi_hasta (pre @ resto) (Suc i))
                  \<and> (\<forall>j<i. real_of_int (Fi_hasta (pre @ resto) (Suc j)) < p)
                  \<and> prev = Fi_hasta (pre @ resto) i
             else i = length (pre @ resto) - 1
                  \<and> prev = total_n (pre @ resto) - fi (last (pre @ resto)))"
  using assms
proof (induction resto arbitrary: pre)
  case Nil
  then have "\<not> (\<exists>j<length pre. p \<le> real_of_int (Fi_hasta pre (Suc j)))"
    by (auto simp: not_le)
  with Nil show ?case
    by (auto simp: total_n_def)
next
  case (Cons c resto)
  let ?cs = "pre @ c # resto"
  have F: "Fi_hasta ?cs (Suc (length pre)) = sum_list (map fi pre) + fi c"
    by (simp add: Fi_hasta_def)
  show ?case
  proof (cases "p \<le> real_of_int (sum_list (map fi pre) + fi c)")
    case True
    have ex: "\<exists>j<length ?cs. p \<le> real_of_int (Fi_hasta ?cs (Suc j))"
      using True F by (intro exI[of _ "length pre"]) simp
    have "buscar_desde ?cs p (length pre) (sum_list (map fi pre)) (c # resto)
            = Inr (length pre, sum_list (map fi pre))"
      using True by simp
    moreover have "Fi_hasta ?cs (length pre) = sum_list (map fi pre)"
      by (rule Fi_hasta_append_length)
    ultimately show ?thesis
      using ex True F Cons.prems(1) by simp
  next
    case False
    have pre': "\<forall>j<length (pre @ [c]). real_of_int (Fi_hasta ((pre @ [c]) @ resto) (Suc j)) < p"
    proof (intro allI impI)
      fix j assume "j < length (pre @ [c])"
      then consider "j < length pre" | "j = length pre" by fastforce
      then show "real_of_int (Fi_hasta ((pre @ [c]) @ resto) (Suc j)) < p"
      proof cases
        case 1 then show ?thesis using Cons.prems(1) by simp
      next
        case 2 then show ?thesis using False F by simp
      qed
    qed
    have ne: "(pre @ [c]) @ resto \<noteq> []" by simp
    have eq: "(pre @ [c]) @ resto = ?cs" by simp
    have acc: "sum_list (map fi (pre @ [c])) = sum_list (map fi pre) + fi c" by simp
    have len: "length (pre @ [c]) = Suc (length pre)" by simp
    have step: "buscar_desde ?cs p (length pre) (sum_list (map fi pre)) (c # resto)
            = buscar_desde ?cs p (Suc (length pre)) (sum_list (map fi pre) + fi c) resto"
      using False by simp
    show ?thesis
      using Cons.IH[OF pre' ne] unfolding eq acc len step .
  qed
qed

lemma total_menos_ultimo:
  assumes "clases \<noteq> []"
  shows "total_n clases - fi (last clases) = Fi_hasta clases (length clases - 1)"
proof -
  have e: "clases = butlast clases @ [last clases]" using assms by simp
  have "sum_list (map fi (butlast clases @ [last clases]))
          = sum_list (map fi (butlast clases)) + fi (last clases)" by simp
  with e have "total_n clases = sum_list (map fi (butlast clases)) + fi (last clases)"
    unfolding total_n_def by simp
  moreover have "Fi_hasta clases (length clases - 1) = sum_list (map fi (butlast clases))"
    by (simp add: Fi_hasta_def butlast_conv_take)
  ultimately show ?thesis by simp
qed

lemma buscar_clase_spec:
  assumes "clases \<noteq> []"
  shows "\<exists>i prev. buscar_clase_por_posicion clases p = Inr (i, prev)
          \<and> i < length clases
          \<and> (if \<exists>j<length clases. p \<le> real_of_int (Fi_hasta clases (Suc j))
             then p \<le> real_of_int (Fi_hasta clases (Suc i))
                  \<and> (\<forall>j<i. real_of_int (Fi_hasta clases (Suc j)) < p)
                  \<and> prev = Fi_hasta clases i
             else i = length clases - 1
                  \<and> prev = total_n clases - fi (last clases))"
proof -
  have "\<forall>j<length ([]::Clase list). real_of_int (Fi_hasta ([] @ clases) (Suc j)) < p"
    by simp
  moreover have "[] @ clases \<noteq> []" using assms by simp
  ultimately show ?thesis
    using buscar_desde_spec[of "[]" clases p]
    unfolding buscar_clase_por_posicion_def append_Nil list.size list.map sum_list.Nil
    by blast
qed

lemma buscar_Fi_hasta:
  assumes "clases \<noteq> []"
  shows "\<exists>i. i < length clases \<and> buscar_clase_por_posicion clases p = Inr (i, Fi_hasta clases i)"
proof -
  from buscar_clase_spec[OF assms, of p] obtain i prev where
    r: "buscar_clase_por_posicion clases p = Inr (i, prev)" and i: "i < length clases"
    and c: "if \<exists>j<length clases. p \<le> real_of_int (Fi_hasta clases (Suc j))
            then p \<le> real_of_int (Fi_hasta clases (Suc i))
                 \<and> (\<forall>j<i. real_of_int (Fi_hasta clases (Suc j)) < p)
                 \<and> prev = Fi_hasta clases i
            else i = length clases - 1 \<and> prev = total_n clases - fi (last clases)"
    by blast
  have "prev = Fi_hasta clases i"
  proof (cases "\<exists>j<length clases. p \<le> real_of_int (Fi_hasta clases (Suc j))")
    case True
    with c show ?thesis by simp
  next
    case False
    with c have "i = length clases - 1" "prev = total_n clases - fi (last clases)" by simp_all
    then show ?thesis using total_menos_ultimo[OF assms] by simp
  qed
  with r i show ?thesis by blast
qed


lemma cuantil_en:
  assumes "total_n clases \<noteq> 0" and "m \<noteq> 0"
    and "buscar_clase_por_posicion clases (real_of_int (k * total_n clases) / real_of_int m) = Inr (i, prev)"
    and "i < length clases"
  shows "cuantil_agrupado clases k m =
           (if fi (clases ! i) = 0 then Inl ZeroDivisionError
            else Inr (Num (minimo (clases ! i)
                   + ((real_of_int (k * total_n clases) / real_of_int m - real_of_int prev)
                        / real_of_int (fi (clases ! i))) * amplitud (clases ! i))))"
  using assms by (simp add: cuantil_agrupado_def Let_def)

text \<open>
  C2. On a non-empty class sequence the position locator returns an index \<open>i\<close> of
  the sequence and a frequency \<open>prev\<close>. When some class has a cumulative frequency
  that reaches the position \<open>p\<close>, \<open>i\<close> is the first such class (its cumulative
  frequency reaches \<open>p\<close>, that of every earlier class is below \<open>p\<close>) and \<open>prev\<close>
  is the cumulative frequency of the classes strictly before \<open>i\<close>. When no class
  reaches \<open>p\<close>, \<open>i\<close> is the last index and \<open>prev\<close> is the total minus the last
  class's absolute frequency.
\<close>

theorem buscar_clase_por_posicion_primera:
  assumes "clases \<noteq> []"
  shows "\<exists>i prev. buscar_clase_por_posicion clases p = Inr (i, prev)
          \<and> i < length clases
          \<and> (if \<exists>j<length clases. p \<le> real_of_int (Fi_hasta clases (Suc j))
             then p \<le> real_of_int (Fi_hasta clases (Suc i))
                  \<and> (\<forall>j<i. real_of_int (Fi_hasta clases (Suc j)) < p)
                  \<and> prev = Fi_hasta clases i
             else i = length clases - 1
                  \<and> prev = total_n clases - fi (last clases))"
  using assms by (rule buscar_clase_spec)

theorem buscar_clase_por_posicion_primera_witness:
  "ejemplo \<noteq> []
   \<and> (\<exists>i prev. buscar_clase_por_posicion ejemplo 10 = Inr (i, prev) \<and> i = 2 \<and> prev = 7
        \<and> prev = Fi_hasta ejemplo i \<and> 10 \<le> real_of_int (Fi_hasta ejemplo (Suc i)))"
proof -
  have h: "ejemplo \<noteq> []" by (simp add: ejemplo_def)
  have r: "buscar_clase_por_posicion ejemplo 10 = Inr (2, 7)"
    by (simp add: buscar_clase_por_posicion_def ejemplo_def)
  have F: "Fi_hasta ejemplo 2 = 7" "Fi_hasta ejemplo 3 = 15"
    by (simp_all add: ejemplo_def Fi_hasta_def numeral_2_eq_2 numeral_3_eq_3)
  show ?thesis
    using h buscar_clase_por_posicion_primera[OF h, of 10] r F by (simp add: numeral_3_eq_3)
qed


section \<open>The quantile interpolates inside the located class\<close>






section \<open>A located class of frequency zero\<close>

text \<open>
  C8 asks for an undefined result, not an error, when the located class has absolute
  frequency zero. The source divides by that frequency without a test: whenever
  \<open>n > 0\<close>, \<open>m\<close> is not zero and the located class has frequency zero, the
  quantile raises \<^verbatim>\<open>ZeroDivisionError\<close>.
\<close>

theorem cuantil_agrupado_clase_vacia:
  assumes "0 < total_n clases" and "m \<noteq> 0"
    and "buscar_clase_por_posicion clases (real_of_int (k * total_n clases) / real_of_int m)
           = Inr (i, prev)"
    and "fi (clases ! i) = 0"
  shows "cuantil_agrupado clases k m = Inl ZeroDivisionError"
proof -
  have ne: "clases \<noteq> []" using assms(1) by (auto simp: total_n_def)
  from buscar_Fi_hasta[OF ne] assms(3) have i: "i < length clases"
    by (metis Inr_inject prod.inject)
  have "total_n clases \<noteq> 0" using assms(1) by simp
  from cuantil_en[OF this assms(2) assms(3) i] assms(4) show ?thesis by simp
qed

theorem cuantil_agrupado_clase_vacia_witness:
  "0 < total_n cero_ultimo \<and> (4::int) \<noteq> 0
   \<and> buscar_clase_por_posicion cero_ultimo (real_of_int (8 * total_n cero_ultimo) / real_of_int 4)
       = Inr (1, 5)
   \<and> fi (cero_ultimo ! 1) = 0
   \<and> cuantil_agrupado cero_ultimo 8 4 = Inl ZeroDivisionError"
proof -
  have n: "total_n cero_ultimo = 5" by (simp add: total_n_def cero_ultimo_def)
  have r: "buscar_clase_por_posicion cero_ultimo (real_of_int (8 * total_n cero_ultimo) / real_of_int 4)
             = Inr (1, 5)"
    by (simp add: n) (simp add: buscar_clase_por_posicion_def cero_ultimo_def)
  have z: "fi (cero_ultimo ! 1) = 0" by (simp add: cero_ultimo_def)
  have "0 < total_n cero_ultimo" "(4::int) \<noteq> 0" by (simp_all add: n)
  from cuantil_agrupado_clase_vacia[OF this r z] n r z show ?thesis by simp
qed

section \<open>Positions inside the data reach a class with observations\<close>




section \<open>The mode is interpolated in the first class of maximal frequency\<close>

lemma max_key_rango:
  assumes "b < s" and "\<forall>j<s. key j \<le> key b" and "\<forall>j<b. key j < key b"
  shows "max_key key b [s..<n] < max s n
         \<and> (\<forall>j<max s n. key j \<le> key (max_key key b [s..<n]))
         \<and> (\<forall>j<max_key key b [s..<n]. key j < key (max_key key b [s..<n]))"
  using assms
proof (induction "n - s" arbitrary: b s)
  case 0
  then have "[s..<n] = []" "max s n = s" by simp_all
  with 0 show ?case by simp
next
  case (Suc d)
  then have sn: "s < n" by simp
  then have u: "[s..<n] = s # [Suc s..<n]" by (rule upt_conv_Cons)
  have mx: "max s n = max (Suc s) n" using sn by simp
  have d: "d = n - Suc s" using Suc.hyps(2) by simp
  show ?case
  proof (cases "key s > key b")
    case True
    have 1: "s < Suc s" by simp
    have 2: "\<forall>j<Suc s. key j \<le> key s"
      using Suc.prems(2) True by (auto simp: less_Suc_eq)
    have 3: "\<forall>j<s. key j < key s"
      using Suc.prems(2) True by fastforce
    from Suc.hyps(1)[OF d 1 2 3] True show ?thesis
      unfolding u mx by simp
  next
    case False
    have 1: "b < Suc s" using Suc.prems(1) by simp
    have 2: "\<forall>j<Suc s. key j \<le> key b"
      using Suc.prems(2) False by (auto simp: less_Suc_eq)
    from Suc.hyps(1)[OF d 1 2 Suc.prems(3)] False show ?thesis
      unfolding u mx by simp
  qed
qed

lemma idx_modal_spec:
  assumes "clases \<noteq> []"
  shows "idx_modal clases < length clases
         \<and> (\<forall>j<length clases. fi (clases ! j) \<le> fi (clases ! idx_modal clases))
         \<and> (\<forall>j<idx_modal clases. fi (clases ! j) < fi (clases ! idx_modal clases))"
proof -
  let ?key = "\<lambda>i. fi (clases ! i)"
  have m: "max 1 (length clases) = length clases" using assms by (cases clases) simp_all
  have a: "(0::nat) < 1" by simp
  have b: "\<forall>j<(1::nat). ?key j \<le> ?key 0" by simp
  have c: "\<forall>j<(0::nat). ?key j < ?key 0" by simp
  have "max_key ?key 0 [1..<length clases] < max 1 (length clases)
         \<and> (\<forall>j<max 1 (length clases). ?key j \<le> ?key (max_key ?key 0 [1..<length clases]))
         \<and> (\<forall>j<max_key ?key 0 [1..<length clases]. ?key j < ?key (max_key ?key 0 [1..<length clases]))"
    by (rule max_key_rango[OF a b c])
  then show ?thesis unfolding idx_modal_def m .
qed

text \<open>
  C4. The mode of the empty sequence is undefined (\<^verbatim>\<open>None\<close>). On a non-empty sequence
  the modal class is the first class of maximal absolute frequency: no class has a
  greater frequency and every earlier class has a smaller one. With
  \<open>d1 = f_modal - f_previous\<close> (0 for \<open>f_previous\<close> when the modal class is the
  first) and \<open>d2 = f_modal - f_next\<close> (0 for \<open>f_next\<close> when it is the last), the
  mode is the midpoint of the modal class when \<open>d1 + d2 = 0\<close> and
  \<open>minimum + (d1 / (d1 + d2)) * width\<close> otherwise.
\<close>

theorem moda_agrupada_primera_maxima:
  "moda_agrupada [] = None
   \<and> (clases \<noteq> [] \<longrightarrow>
        (\<exists>idx. idx < length clases
           \<and> (\<forall>j<length clases. fi (clases ! j) \<le> fi (clases ! idx))
           \<and> (\<forall>j<idx. fi (clases ! j) < fi (clases ! idx))
           \<and> moda_agrupada clases
               = Some (let c = clases ! idx;
                           d1 = fi c - (if idx = 0 then 0 else fi (clases ! (idx - 1)));
                           d2 = fi c - (if Suc idx < length clases then fi (clases ! Suc idx) else 0)
                       in if d1 + d2 = 0 then (minimo c + maximo c) / 2
                          else minimo c + (real_of_int d1 / real_of_int (d1 + d2)) * amplitud c)))"
proof (intro conjI impI)
  show "moda_agrupada [] = None" by (simp add: moda_agrupada_def)
next
  assume ne: "clases \<noteq> []"
  let ?idx = "idx_modal clases"
  have prev: "(int ?idx - 1 \<ge> 0) = (\<not> ?idx = 0)" by auto
  have nxt: "?idx + 1 = Suc ?idx" by simp
  have sw: "\<And>P (a::int) b. (if \<not> P then a else b) = (if P then b else a)" by simp
  have eq: "moda_agrupada clases
               = Some (let c = clases ! ?idx;
                           d1 = fi c - (if ?idx = 0 then 0 else fi (clases ! (?idx - 1)));
                           d2 = fi c - (if Suc ?idx < length clases then fi (clases ! Suc ?idx) else 0)
                       in if d1 + d2 = 0 then (minimo c + maximo c) / 2
                          else minimo c + (real_of_int d1 / real_of_int (d1 + d2)) * amplitud c)"
    unfolding moda_agrupada_def Let_def prev nxt sw by (simp only: ne if_False if_distrib[of Some])
  from idx_modal_spec[OF ne] have
    a: "?idx < length clases"
    and b: "\<forall>j<length clases. fi (clases ! j) \<le> fi (clases ! ?idx)"
    and c: "\<forall>j<?idx. fi (clases ! j) < fi (clases ! ?idx)" by simp_all
  show "\<exists>idx. idx < length clases
           \<and> (\<forall>j<length clases. fi (clases ! j) \<le> fi (clases ! idx))
           \<and> (\<forall>j<idx. fi (clases ! j) < fi (clases ! idx))
           \<and> moda_agrupada clases
               = Some (let c = clases ! idx;
                           d1 = fi c - (if idx = 0 then 0 else fi (clases ! (idx - 1)));
                           d2 = fi c - (if Suc idx < length clases then fi (clases ! Suc idx) else 0)
                       in if d1 + d2 = 0 then (minimo c + maximo c) / 2
                          else minimo c + (real_of_int d1 / real_of_int (d1 + d2)) * amplitud c)"
    using a b c eq by (intro exI[of _ ?idx] conjI)
qed

theorem moda_agrupada_primera_maxima_witness:
  "moda_agrupada [] = None \<and> ejemplo \<noteq> []
   \<and> 2 < length ejemplo \<and> fi (ejemplo ! 2) = 8 \<and> list_all (\<lambda>c. fi c \<le> 8) ejemplo
   \<and> fi (ejemplo ! 0) < 8 \<and> fi (ejemplo ! 1) < 8
   \<and> moda_agrupada ejemplo = Some (225 / 7)"
proof -
  have ne: "ejemplo \<noteq> []" by (simp add: ejemplo_def)
  have f: "2 < length ejemplo" "fi (ejemplo ! 2) = 8" "list_all (\<lambda>c. fi c \<le> 8) ejemplo"
    "fi (ejemplo ! 0) < 8" "fi (ejemplo ! 1) < 8"
    by (simp_all add: ejemplo_def numeral_2_eq_2)
  from moda_agrupada_primera_maxima[of ejemplo] ne obtain idx where
    e: "moda_agrupada [] = None"
    and i: "idx < length ejemplo"
    and mx: "\<forall>j<length ejemplo. fi (ejemplo ! j) \<le> fi (ejemplo ! idx)"
    and m: "moda_agrupada ejemplo
               = Some (let c = ejemplo ! idx;
                           d1 = fi c - (if idx = 0 then 0 else fi (ejemplo ! (idx - 1)));
                           d2 = fi c - (if Suc idx < length ejemplo then fi (ejemplo ! Suc idx) else 0)
                       in if d1 + d2 = 0 then (minimo c + maximo c) / 2
                          else minimo c + (real_of_int d1 / real_of_int (d1 + d2)) * amplitud c)"
    by blast
  from mx f(1,2) have ge: "8 \<le> fi (ejemplo ! idx)" by (metis)
  from i have "idx \<in> {0, 1, 2, 3, 4}" by (auto simp: ejemplo_def)
  with ge have idx: "idx = 2" by (auto simp: ejemplo_def)
  have "moda_agrupada ejemplo = Some (225 / 7)"
    unfolding m idx by (simp add: ejemplo_def amplitud_def numeral_2_eq_2 numeral_3_eq_3)
  with e ne f show ?thesis by simp
qed

section \<open>The frequency table\<close>

text \<open>The row the engine builds for class \<open>k\<close> of a sequence, as a function of the sequence.\<close>

lemma upt_0_Suc: "[0..<Suc n] = 0 # map Suc [0..<n]"
  by (simp add: upt_conv_Cons map_Suc_upt del: upt_Suc)

lemma tabla_desde_spec:
  "tabla_desde g len i F filas resto
     = filas @ map (\<lambda>k. \<lparr>intervalo = etiqueta g (resto ! k) (Suc (i + k) = len),
                           fila_min = minimo (resto ! k), fila_max = maximo (resto ! k),
                           fila_A = amplitud (resto ! k), fila_fi = fi (resto ! k),
                           fila_Fi = F + sum_list (map fi (take (Suc k) resto))\<rparr>)
                 [0..<length resto]"
proof (induction resto arbitrary: i F filas)
  case Nil
  show ?case by simp
next
  case (Cons c resto)
  have e: "(int i = int len - 1) = (Suc i = len)" by auto
  show ?case
    unfolding tabla_desde.simps Let_def Cons.IH e length_Cons upt_0_Suc
    by (simp add: comp_def add.assoc)
qed

lemma etiquetas_desde_spec:
  "etiquetas_desde g len i etiquetas resto
     = etiquetas @ map (\<lambda>k. if Suc (i + k) < len
                              then ''[ '' @ g (minimo (resto ! k)) @ '' , '' @ g (maximo (resto ! k)) @ '' [''
                              else ''[ '' @ g (minimo (resto ! k)) @ '' , '' @ g (maximo (resto ! k)) @ '' ]'')
                     [0..<length resto]"
proof (induction resto arbitrary: i etiquetas)
  case Nil
  show ?case by simp
next
  case (Cons c resto)
  have e: "(int i < int len - 1) = (Suc i < len)" by auto
  show ?case
    unfolding etiquetas_desde.simps Cons.IH e length_Cons upt_0_Suc
    by (simp add: comp_def)
qed

lemma construir_tabla_filas:
  "fst (construir_tabla g clases)
     = map (\<lambda>k. \<lparr>intervalo = etiqueta g (clases ! k) (Suc k = length clases),
                   fila_min = minimo (clases ! k), fila_max = maximo (clases ! k),
                   fila_A = amplitud (clases ! k), fila_fi = fi (clases ! k),
                   fila_Fi = sum_list (map fi (take (Suc k) clases))\<rparr>)
           [0..<length clases]"
  by (simp add: construir_tabla_def tabla_desde_spec)

text \<open>
  C3. The engine's table builder returns the empty row sequence and 0 for the empty
  class sequence. In general it returns \<open>total_n\<close>, the sum of all absolute
  frequencies, and one row per class in input order: row \<open>i\<close> carries the minimum,
  maximum, width and absolute frequency of class \<open>i\<close>, its cumulative frequency is
  the sum of the absolute frequencies of classes \<open>0..i\<close>, and its label is
  \<open>[ min , max [\<close> except in the last row, where it is \<open>[ min , max ]\<close>; \<open>g\<close>
  renders the two numbers.
\<close>

theorem construir_tabla_filas_y_total:
  "construir_tabla g [] = ([], 0)
   \<and> (\<exists>filas n. construir_tabla g clases = (filas, n)
         \<and> n = sum_list (map fi clases)
         \<and> length filas = length clases
         \<and> (\<forall>i<length clases.
               filas ! i
                 = \<lparr>intervalo = ''[ '' @ g (minimo (clases ! i)) @ '' , '' @ g (maximo (clases ! i))
                                   @ (if Suc i = length clases then '' ]'' else '' [''),
                     fila_min = minimo (clases ! i), fila_max = maximo (clases ! i),
                     fila_A = maximo (clases ! i) - minimo (clases ! i),
                     fila_fi = fi (clases ! i),
                     fila_Fi = sum_list (map fi (take (Suc i) clases))\<rparr>))"
proof (intro conjI)
  show "construir_tabla g [] = ([], 0)"
    by (simp add: construir_tabla_def total_n_def)
next
  have n: "snd (construir_tabla g clases) = sum_list (map fi clases)"
    by (simp add: construir_tabla_def total_n_def)
  have l: "length (fst (construir_tabla g clases)) = length clases"
    unfolding construir_tabla_filas by simp
  have r: "\<forall>i<length clases.
               fst (construir_tabla g clases) ! i
                 = \<lparr>intervalo = ''[ '' @ g (minimo (clases ! i)) @ '' , '' @ g (maximo (clases ! i))
                                   @ (if Suc i = length clases then '' ]'' else '' [''),
                     fila_min = minimo (clases ! i), fila_max = maximo (clases ! i),
                     fila_A = maximo (clases ! i) - minimo (clases ! i),
                     fila_fi = fi (clases ! i),
                     fila_Fi = sum_list (map fi (take (Suc i) clases))\<rparr>"
    unfolding construir_tabla_filas by (simp add: etiqueta_def amplitud_def)
  show "\<exists>filas n. construir_tabla g clases = (filas, n)
         \<and> n = sum_list (map fi clases)
         \<and> length filas = length clases
         \<and> (\<forall>i<length clases.
               filas ! i
                 = \<lparr>intervalo = ''[ '' @ g (minimo (clases ! i)) @ '' , '' @ g (maximo (clases ! i))
                                   @ (if Suc i = length clases then '' ]'' else '' [''),
                     fila_min = minimo (clases ! i), fila_max = maximo (clases ! i),
                     fila_A = maximo (clases ! i) - minimo (clases ! i),
                     fila_fi = fi (clases ! i),
                     fila_Fi = sum_list (map fi (take (Suc i) clases))\<rparr>)"
  proof (intro exI[of _ "fst (construir_tabla g clases)"]
               exI[of _ "snd (construir_tabla g clases)"] conjI)
    show "construir_tabla g clases = (fst (construir_tabla g clases), snd (construir_tabla g clases))"
      by simp
  qed (fact n l r)+
qed

theorem construir_tabla_filas_y_total_witness:
  "construir_tabla g_muestra [] = ([], 0)
   \<and> (\<exists>filas n. construir_tabla g_muestra cero_ultimo = (filas, n) \<and> n = 5 \<and> length filas = 2
         \<and> filas ! 0 = \<lparr>intervalo = ''[ 0 , 10 ['', fila_min = 0, fila_max = 10, fila_A = 10,
                          fila_fi = 5, fila_Fi = 5\<rparr>
         \<and> filas ! 1 = \<lparr>intervalo = ''[ 10 , 20 ]'', fila_min = 10, fila_max = 20, fila_A = 10,
                          fila_fi = 0, fila_Fi = 5\<rparr>)"
proof -
  from construir_tabla_filas_y_total[of g_muestra cero_ultimo] obtain filas n where
    e: "construir_tabla g_muestra [] = ([], 0)"
    and c: "construir_tabla g_muestra cero_ultimo = (filas, n)"
    and n: "n = sum_list (map fi cero_ultimo)"
    and l: "length filas = length cero_ultimo"
    and r: "\<forall>i<length cero_ultimo.
               filas ! i
                 = \<lparr>intervalo = ''[ '' @ g_muestra (minimo (cero_ultimo ! i)) @ '' , ''
                                   @ g_muestra (maximo (cero_ultimo ! i))
                                   @ (if Suc i = length cero_ultimo then '' ]'' else '' [''),
                     fila_min = minimo (cero_ultimo ! i), fila_max = maximo (cero_ultimo ! i),
                     fila_A = maximo (cero_ultimo ! i) - minimo (cero_ultimo ! i),
                     fila_fi = fi (cero_ultimo ! i),
                     fila_Fi = sum_list (map fi (take (Suc i) cero_ultimo))\<rparr>"
    by blast
  have len: "length cero_ultimo = 2" by (simp add: cero_ultimo_def)
  have "(0::nat) < length cero_ultimo" "(1::nat) < length cero_ultimo" by (simp_all add: len)
  with r have r0: "filas ! 0 = \<lparr>intervalo = ''[ 0 , 10 ['', fila_min = 0, fila_max = 10, fila_A = 10,
                          fila_fi = 5, fila_Fi = 5\<rparr>"
    and r1: "filas ! 1 = \<lparr>intervalo = ''[ 10 , 20 ]'', fila_min = 10, fila_max = 20, fila_A = 10,
                          fila_fi = 0, fila_Fi = 5\<rparr>"
    by (simp_all add: cero_ultimo_def g_muestra_def)
  have "n = 5" using n by (simp add: cero_ultimo_def)
  with e c l len r0 r1 show ?thesis by simp
qed

section \<open>The two table builders agree while the running sums fit 64 bits\<close>

lemma map_por_indice: "map f xs = map (\<lambda>k. f (xs ! k)) [0..<length xs]"
proof -
  have "map f xs = map f (map (\<lambda>k. xs ! k) [0..<length xs])" by (simp only: map_nth)
  then show ?thesis by (simp add: comp_def)
qed

lemma etiquetas_iguales:
  "map Texto (etiquetas_desde g (length clases) 0 [] clases)
     = map (\<lambda>f. Texto (intervalo f)) (fst (construir_tabla g clases))"
  unfolding construir_tabla_filas etiquetas_desde_spec
  by (auto simp: etiqueta_def)

lemma amplitudes_iguales:
  "map Flotante (map (\<lambda>c. maximo c - minimo c) clases)
     = map (\<lambda>f. Flotante (fila_A f)) (fst (construir_tabla g clases))"
  unfolding construir_tabla_filas
  by (simp add: comp_def amplitud_def map_por_indice[of "\<lambda>c. Flotante (maximo c - minimo c)" clases])

lemma frecuencias_iguales:
  "map Entero (map fi clases) = map (\<lambda>f. Entero (fila_fi f)) (fst (construir_tabla g clases))"
  unfolding construir_tabla_filas
  by (simp add: comp_def map_por_indice[of "\<lambda>c. Entero (fi c)" clases])

lemma envolver64_id: "en_int64 x \<Longrightarrow> envolver64 x = x"
proof -
  assume "en_int64 x"
  then have "0 \<le> x + 2 ^ 63" "x + 2 ^ 63 < (2::int) ^ 64" by (simp_all add: en_int64_def)
  then have "(x + 2 ^ 63) mod 2 ^ 64 = x + 2 ^ 63" by (rule mod_pos_pos_trivial)
  then show ?thesis by (simp add: envolver64_def)
qed

lemma cumsum_desde_spec:
  assumes "\<forall>k<length xs. en_int64 (acc + sum_list (take (Suc k) xs))"
  shows "cumsum_desde acc xs = map (\<lambda>k. acc + sum_list (take (Suc k) xs)) [0..<length xs]"
  using assms
proof (induction xs arbitrary: acc)
  case Nil
  show ?case by simp
next
  case (Cons x xs)
  from Cons.prems have "en_int64 (acc + sum_list (take (Suc 0) (x # xs)))" by blast
  then have w: "envolver64 (acc + x) = acc + x" by (simp add: envolver64_id)
  have "\<forall>k<length xs. en_int64 ((acc + x) + sum_list (take (Suc k) xs))"
  proof (intro allI impI)
    fix k assume "k < length xs"
    then have "Suc k < length (x # xs)" by simp
    with Cons.prems have "en_int64 (acc + sum_list (take (Suc (Suc k)) (x # xs)))" by blast
    then show "en_int64 ((acc + x) + sum_list (take (Suc k) xs))" by (simp add: add.assoc)
  qed
  from Cons.IH[OF this] show ?case
    unfolding cumsum_desde.simps Let_def w length_Cons upt_0_Suc
    by (simp add: comp_def add.assoc)
qed

lemma cumsum_spec:
  assumes "list_all en_int64 (map fi clases)"
    and "\<forall>i\<le>length clases. en_int64 (Fi_hasta clases i)"
  shows "cumsum otro (map fi clases)
           = map (\<lambda>k. sum_list (map fi (take (Suc k) clases))) [0..<length clases]"
proof -
  have "\<forall>k<length (map fi clases). en_int64 (0 + sum_list (take (Suc k) (map fi clases)))"
  proof (intro allI impI)
    fix k assume "k < length (map fi clases)"
    then have "Suc k \<le> length clases" by simp
    with assms(2) have "en_int64 (Fi_hasta clases (Suc k))" by blast
    then show "en_int64 (0 + sum_list (take (Suc k) (map fi clases)))"
      by (simp add: Fi_hasta_def take_map)
  qed
  from cumsum_desde_spec[OF this] assms(1) show ?thesis
    by (simp add: cumsum_def take_map)
qed

lemma acumuladas_iguales:
  assumes "list_all en_int64 (map fi clases)"
    and "\<forall>i\<le>length clases. en_int64 (Fi_hasta clases i)"
  shows "map Entero (cumsum otro (map fi clases))
           = map (\<lambda>f. Entero (fila_Fi f)) (fst (construir_tabla g clases))"
  unfolding construir_tabla_filas cumsum_spec[OF assms]
  by (simp add: comp_def)

lemma ultimo_cumsum:
  assumes "list_all en_int64 (map fi clases)"
    and "\<forall>i\<le>length clases. en_int64 (Fi_hasta clases i)"
  shows "(if cumsum otro (map fi clases) \<noteq> [] then last (cumsum otro (map fi clases)) else 0)
           = total_n clases"
proof (cases "clases = []")
  case True
  then show ?thesis by (simp add: cumsum_def total_n_def)
next
  case False
  then have l: "0 < length clases" by simp
  then have "[0..<length clases] \<noteq> []" by simp
  then have "last (cumsum otro (map fi clases))
               = sum_list (map fi (take (Suc (last [0..<length clases])) clases))"
    unfolding cumsum_spec[OF assms] by (simp add: last_map)
  also have "last [0..<length clases] = length clases - 1" using l by (simp add: last_upt)
  also have "Suc (length clases - 1) = length clases" using l by simp
  finally have "last (cumsum otro (map fi clases)) = total_n clases" by (simp add: total_n_def)
  moreover have "cumsum otro (map fi clases) \<noteq> []" unfolding cumsum_spec[OF assms] using l by simp
  ultimately show ?thesis by simp
qed

text \<open>
  C10, as amended. Let every absolute frequency, and every running sum of the
  frequencies, lie in the range \<open>[-2^63, 2^63)\<close> of a 64-bit signed integer (as they
  do for non-negative frequencies with a total below \<open>2^63\<close>). Then the rows of the
  engine's table and the data rows of the console program's data frame agree class
  for class in their interval labels, widths, absolute frequencies and cumulative
  frequencies, and the \<^verbatim>\<open>TOTAL\<close> row that the console program appends holds, in both
  frequency columns, the \<open>total_n\<close> that the engine returns. Both builders render
  numbers with the same \<open>g\<close>.
\<close>

theorem tablas_coinciden:
  assumes "list_all en_int64 (map fi clases)"
    and "\<forall>i\<le>length clases. en_int64 (Fi_hasta clases i)"
  shows "\<exists>filas n. construir_tabla g clases = (filas, n)
     \<and> col_intervalo (construir_tabla_ejerci g otro clases)
         = map (\<lambda>f. Texto (intervalo f)) filas @ [Texto ''TOTAL'']
     \<and> col_amplitud (construir_tabla_ejerci g otro clases)
         = map (\<lambda>f. Flotante (fila_A f)) filas @ [Texto []]
     \<and> col_fi (construir_tabla_ejerci g otro clases)
         = map (\<lambda>f. Entero (fila_fi f)) filas @ [Entero n]
     \<and> col_Fi (construir_tabla_ejerci g otro clases)
         = map (\<lambda>f. Entero (fila_Fi f)) filas @ [Entero n]"
proof (intro exI[of _ "fst (construir_tabla g clases)"] exI[of _ "total_n clases"] conjI)
  show "construir_tabla g clases = (fst (construir_tabla g clases), total_n clases)"
    by (simp add: construir_tabla_def)
  show "col_intervalo (construir_tabla_ejerci g otro clases)
         = map (\<lambda>f. Texto (intervalo f)) (fst (construir_tabla g clases)) @ [Texto ''TOTAL'']"
    by (simp add: construir_tabla_ejerci_def Let_def etiquetas_iguales)
  show "col_amplitud (construir_tabla_ejerci g otro clases)
         = map (\<lambda>f. Flotante (fila_A f)) (fst (construir_tabla g clases)) @ [Texto []]"
    using amplitudes_iguales[of clases g] by (simp add: construir_tabla_ejerci_def Let_def)
  show "col_fi (construir_tabla_ejerci g otro clases)
         = map (\<lambda>f. Entero (fila_fi f)) (fst (construir_tabla g clases)) @ [Entero (total_n clases)]"
    using frecuencias_iguales[of clases g]
    by (simp add: construir_tabla_ejerci_def Let_def total_n_def)
  show "col_Fi (construir_tabla_ejerci g otro clases)
         = map (\<lambda>f. Entero (fila_Fi f)) (fst (construir_tabla g clases)) @ [Entero (total_n clases)]"
    using acumuladas_iguales[OF assms, of otro g] ultimo_cumsum[OF assms, of otro]
    by (simp add: construir_tabla_ejerci_def Let_def)
qed

lemma tabla_cero_ultimo:
  "construir_tabla g_muestra cero_ultimo
     = ([\<lparr>intervalo = ''[ 0 , 10 ['', fila_min = 0, fila_max = 10, fila_A = 10,
           fila_fi = 5, fila_Fi = 5\<rparr>,
         \<lparr>intervalo = ''[ 10 , 20 ]'', fila_min = 10, fila_max = 20, fila_A = 10,
           fila_fi = 0, fila_Fi = 5\<rparr>], 5)"
  by (simp add: construir_tabla_def cero_ultimo_def total_n_def etiqueta_def g_muestra_def
      amplitud_def)

lemma Fi_hasta_cero_ultimo:
  "Fi_hasta cero_ultimo 0 = 0" "Fi_hasta cero_ultimo (Suc 0) = 5" "Fi_hasta cero_ultimo 2 = 5"
  by (simp_all add: Fi_hasta_def cero_ultimo_def numeral_2_eq_2)

theorem tablas_coinciden_witness:
  "cero_ultimo \<noteq> [] \<and> list_all en_int64 (map fi cero_ultimo) \<and> length cero_ultimo = 2
   \<and> en_int64 (Fi_hasta cero_ultimo 0) \<and> en_int64 (Fi_hasta cero_ultimo 1)
   \<and> en_int64 (Fi_hasta cero_ultimo 2)
   \<and> snd (construir_tabla g_muestra cero_ultimo) = 5
   \<and> map intervalo (fst (construir_tabla g_muestra cero_ultimo)) = [''[ 0 , 10 ['', ''[ 10 , 20 ]'']
   \<and> col_intervalo (construir_tabla_ejerci g_muestra otro_muestra cero_ultimo)
       = [Texto ''[ 0 , 10 ['', Texto ''[ 10 , 20 ]'', Texto ''TOTAL'']
   \<and> col_amplitud (construir_tabla_ejerci g_muestra otro_muestra cero_ultimo)
       = [Flotante 10, Flotante 10, Texto []]
   \<and> col_fi (construir_tabla_ejerci g_muestra otro_muestra cero_ultimo)
       = [Entero 5, Entero 0, Entero 5]
   \<and> col_Fi (construir_tabla_ejerci g_muestra otro_muestra cero_ultimo)
       = [Entero 5, Entero 5, Entero 5]"
proof -
  have ne: "cero_ultimo \<noteq> []" and len: "length cero_ultimo = 2" by (simp_all add: cero_ultimo_def)
  have h1: "list_all en_int64 (map fi cero_ultimo)" by (simp add: cero_ultimo_def en_int64_def)
  have e: "en_int64 (Fi_hasta cero_ultimo 0)" "en_int64 (Fi_hasta cero_ultimo 1)"
    "en_int64 (Fi_hasta cero_ultimo 2)"
    by (simp_all add: Fi_hasta_cero_ultimo en_int64_def)
  have h2: "\<forall>i\<le>length cero_ultimo. en_int64 (Fi_hasta cero_ultimo i)"
  proof (intro allI impI)
    fix i assume "i \<le> length cero_ultimo"
    then have "i = 0 \<or> i = 1 \<or> i = 2" unfolding len by linarith
    with e show "en_int64 (Fi_hasta cero_ultimo i)" by auto
  qed
  from tablas_coinciden[OF h1 h2, of g_muestra otro_muestra] obtain filas n where
    c: "construir_tabla g_muestra cero_ultimo = (filas, n)"
    and a: "col_intervalo (construir_tabla_ejerci g_muestra otro_muestra cero_ultimo)
         = map (\<lambda>f. Texto (intervalo f)) filas @ [Texto ''TOTAL'']"
       "col_amplitud (construir_tabla_ejerci g_muestra otro_muestra cero_ultimo)
         = map (\<lambda>f. Flotante (fila_A f)) filas @ [Texto []]"
       "col_fi (construir_tabla_ejerci g_muestra otro_muestra cero_ultimo)
         = map (\<lambda>f. Entero (fila_fi f)) filas @ [Entero n]"
       "col_Fi (construir_tabla_ejerci g_muestra otro_muestra cero_ultimo)
         = map (\<lambda>f. Entero (fila_Fi f)) filas @ [Entero n]"
    by blast
  from c have f: "filas = [\<lparr>intervalo = ''[ 0 , 10 ['', fila_min = 0, fila_max = 10, fila_A = 10,
           fila_fi = 5, fila_Fi = 5\<rparr>,
         \<lparr>intervalo = ''[ 10 , 20 ]'', fila_min = 10, fila_max = 20, fila_A = 10,
           fila_fi = 0, fila_Fi = 5\<rparr>]" and n: "n = 5"
    unfolding tabla_cero_ultimo by simp_all
  show ?thesis
    unfolding a c unfolding f n using ne len h1 e by simp
qed

theorem tablas_coinciden_counterexample:
  "enormes \<noteq> [] \<and> list_all (\<lambda>c. minimo c < maximo c \<and> 0 \<le> fi c) enormes
   \<and> list_all en_int64 (map fi enormes)
   \<and> map fila_Fi (fst (construir_tabla g_muestra enormes)) = [2 ^ 62, 2 ^ 63]
   \<and> snd (construir_tabla g_muestra enormes) = 2 ^ 63
   \<and> col_Fi (construir_tabla_ejerci g_muestra otro_muestra enormes)
       = [Entero (2 ^ 62), Entero (- (2 ^ 63)), Entero (- (2 ^ 63))]"
  by (simp add: enormes_def construir_tabla_def total_n_def construir_tabla_ejerci_def
      cumsum_def en_int64_def envolver64_def Let_def)

end
